theory Spec2Isabelle
  imports Complex_Main "HOL-Library.Multiset" "HOL-Library.Option_ord"
    "HOL-Library.Char_ord" "HOL-Library.List_Lexorder"
begin

section \<open>The climate dashboard (app.py): data model\<close>

text \<open>
  The program is a pandas script. A data frame is modelled as the list of its rows, in
  row order. A cell that pandas holds as NaN (or NaT for a timestamp) is \<open>None\<close>.
  The floating-point columns are modelled by \<open>real\<close>: rounding and the infinities are
  not modelled.

  \<open>raw_row\<close> is a row as \<^verbatim>\<open>pd.read_csv\<close> delivers it: every cell may be missing, the
  date and the two coordinates are still text. A present cell of these three columns is a
  string of the frame. A column that \<^verbatim>\<open>pd.read_csv\<close> reads as numbers has no string
  cell; the only such column that this type can hold is one with no present cell at all
  (see \<open>holds_text\<close> below). \<open>row\<close> is a row of the frame that
  \<^verbatim>\<open>load_and_preprocess_data\<close> returns: \<open>dt\<close> is a timestamp (nanoseconds since
  1970-01-01, as pandas stores it), the coordinates are numbers, and the columns
  \<open>Year\<close> and \<open>Month\<close> have been added.
\<close>

record raw_row =
  raw_dt :: "string option"
  raw_AverageTemperature :: "real option"
  raw_Latitude :: "string option"
  raw_Longitude :: "string option"
  raw_City :: "string option"
  raw_Country :: "string option"

record row =
  dt :: "int option"
  AverageTemperature :: "real option"
  Latitude :: "real option"
  Longitude :: "real option"
  City :: "string option"
  Country :: "string option"
  Year :: "int option"
  Month :: "int option"

datatype error = DateParseError | ValueError | AttributeError

section \<open>Library functions the loader calls\<close>

text \<open>
  \<^verbatim>\<open>pd.to_datetime\<close> and the conversion of a string to a float (\<^verbatim>\<open>astype(float)\<close>) are
  library code. The loader takes both as parameters: \<open>to_datetime\<close> maps a date string to
  a timestamp, to NaT (\<open>None\<close>: the library answers NaT without an error on texts such as
  \<^verbatim>\<open>NaT\<close>), or fails; \<open>to_float\<close> maps a string to a number, to NaN (\<open>None\<close>, on texts
  such as \<^verbatim>\<open>nan\<close>), or fails. What is proved about the loader holds for every such pair. Two concrete readers, for ISO dates
  \<^verbatim>\<open>YYYY-MM-DD\<close> and for plain decimal numbers, are defined further down to run the
  loader on examples.

  The accessors \<^verbatim>\<open>.dt.year\<close> and \<^verbatim>\<open>.dt.month\<close> compute the calendar fields of a
  timestamp from its day count, as the datetime code under pandas does
  (\<^verbatim>\<open>days_to_yearsdays\<close>, then the loop over the table of month lengths in
  \<^verbatim>\<open>set_datetimestruct_days\<close>). The C code's two branches for the sign of the day
  count compute the floor quotient and remainder by 146097, which is \<open>div\<close> and
  \<open>mod\<close> on \<open>int\<close>. The loop leaves the month unset when no table entry matches:
  that is \<open>None\<close>.
\<close>

definition is_leapyear :: "int \<Rightarrow> bool" where
  "is_leapyear y = (y mod 4 = 0 \<and> (y mod 100 \<noteq> 0 \<or> y mod 400 = 0))"

definition days_to_yearsdays :: "int \<Rightarrow> int \<times> int" where
  "days_to_yearsdays days0 =
     (let days = days0 - (365 * 30 + 7);
          year = 400 * (days div 146097);
          days = days mod 146097
      in if days \<ge> 366 then
           (let year = year + 100 * ((days - 1) div 36524);
                days = (days - 1) mod 36524
            in if days \<ge> 365 then
                 (let year = year + 4 * ((days + 1) div 1461);
                      days = (days + 1) mod 1461
                  in if days \<ge> 366 then (year + (days - 1) div 365 + 2000, (days - 1) mod 365)
                     else (year + 2000, days))
               else (year + 2000, days))
         else (year + 2000, days))"

definition days_per_month_table :: "bool \<Rightarrow> int list" where
  "days_per_month_table leap =
     (if leap then [31, 29, 31, 30, 31, 30, 31, 31, 30, 31, 30, 31]
      else [31, 28, 31, 30, 31, 30, 31, 31, 30, 31, 30, 31])"

fun month_loop :: "int list \<Rightarrow> int \<Rightarrow> int \<Rightarrow> (int \<times> int) option" where
  "month_loop [] i days = None"
| "month_loop (l # ls) i days =
     (if days < l then Some (i + 1, days + 1) else month_loop ls (i + 1) (days - l))"

definition set_datetimestruct_days :: "int \<Rightarrow> int \<times> (int \<times> int) option" where
  "set_datetimestruct_days days =
     (let (year, d) = days_to_yearsdays days
      in (year, month_loop (days_per_month_table (is_leapyear year)) 0 d))"

definition ns_per_day :: int where
  "ns_per_day = 86400 * 1000000000"

definition dt_year :: "int \<Rightarrow> int" where
  "dt_year ns = fst (set_datetimestruct_days (ns div ns_per_day))"

definition dt_month :: "int \<Rightarrow> int option" where
  "dt_month ns = map_option fst (snd (set_datetimestruct_days (ns div ns_per_day)))"

section \<open>load_and_preprocess_data (lines 7-25)\<close>

text \<open>
  Each statement of the loader works on a whole column, so a failing conversion of the
  \<open>dt\<close> column is raised before any coordinate is read. \<open>map_result\<close> converts a
  column and stops at the first failing cell.
\<close>

fun map_result :: "('a \<Rightarrow> error + 'b) \<Rightarrow> 'a list \<Rightarrow> error + 'b list" where
  "map_result f [] = Inr []"
| "map_result f (x # xs) =
     (case f x of
        Inl e \<Rightarrow> Inl e
      | Inr y \<Rightarrow> (case map_result f xs of Inl e \<Rightarrow> Inl e | Inr ys \<Rightarrow> Inr (y # ys)))"

text \<open>Line 12: \<^verbatim>\<open>df.dropna(subset=['AverageTemperature'], inplace=True)\<close>.\<close>

definition dropna :: "raw_row list \<Rightarrow> raw_row list" where
  "dropna raw = filter (\<lambda>r. raw_AverageTemperature r \<noteq> None) raw"

text \<open>
  Line 15: a missing date becomes NaT, without an error; a present one is what the
  library makes of it, which may be NaT as well.
\<close>

definition to_datetime_cell ::
  "(string \<Rightarrow> error + int option) \<Rightarrow> string option \<Rightarrow> error + int option" where
  "to_datetime_cell to_datetime c = (case c of None \<Rightarrow> Inr None | Some s \<Rightarrow> to_datetime s)"

text \<open>
  Lines 22-23: \<^verbatim>\<open>.str[:-1]\<close> keeps all but the last character (nothing of an empty
  string); \<^verbatim>\<open>.astype(float)\<close> converts what is left. A missing cell stays missing.

  The \<^verbatim>\<open>.str\<close> accessor exists on a column of text only. A column of the file with
  rows but no text in any of them is read as a column of numbers, and \<^verbatim>\<open>.str\<close> raises
  AttributeError on it; the column of a file without rows is a column of text. The type of
  a column is fixed when the file is read, before any row is dropped.
\<close>

definition holds_text :: "raw_row list \<Rightarrow> (raw_row \<Rightarrow> string option) \<Rightarrow> bool" where
  "holds_text raw col = (raw = [] \<or> (\<exists>r \<in> set raw. col r \<noteq> None))"

definition str_drop_last :: "string option \<Rightarrow> string option" where
  "str_drop_last c = map_option butlast c"

definition astype_float ::
  "(string \<Rightarrow> error + real option) \<Rightarrow> string option \<Rightarrow> error + real option" where
  "astype_float to_float c = (case c of None \<Rightarrow> Inr None | Some s \<Rightarrow> to_float s)"

definition convert_coordinate ::
  "(string \<Rightarrow> error + real option) \<Rightarrow> string option \<Rightarrow> error + real option" where
  "convert_coordinate to_float c = astype_float to_float (str_drop_last c)"

definition mk_row :: "raw_row \<Rightarrow> int option \<Rightarrow> real option \<Rightarrow> real option \<Rightarrow> row" where
  "mk_row r d la lo =
     \<lparr>dt = d, AverageTemperature = raw_AverageTemperature r, Latitude = la, Longitude = lo,
      City = raw_City r, Country = raw_Country r,
      Year = map_option dt_year d, Month = Option.bind d dt_month\<rparr>"

definition convert_column ::
  "(string \<Rightarrow> error + real option) \<Rightarrow> raw_row list \<Rightarrow> (raw_row \<Rightarrow> string option)
     \<Rightarrow> error + real option list" where
  "convert_column to_float raw col =
     (if holds_text raw col then map_result (\<lambda>r. convert_coordinate to_float (col r)) (dropna raw)
      else Inl AttributeError)"

definition load_and_preprocess_data ::
  "(string \<Rightarrow> error + int option) \<Rightarrow> (string \<Rightarrow> error + real option) \<Rightarrow> raw_row list
     \<Rightarrow> error + row list" where
  "load_and_preprocess_data to_datetime to_float raw =
     (let d = dropna raw in
      case map_result (\<lambda>r. to_datetime_cell to_datetime (raw_dt r)) d of
        Inl e \<Rightarrow> Inl e
      | Inr dts \<Rightarrow>
          (case convert_column to_float raw raw_Latitude of
             Inl e \<Rightarrow> Inl e
           | Inr lats \<Rightarrow>
               (case convert_column to_float raw raw_Longitude of
                  Inl e \<Rightarrow> Inl e
                | Inr lons \<Rightarrow>
                    Inr (map (\<lambda>(r, t, la, lo). mk_row r t la lo) (zip d (zip dts (zip lats lons)))))))"

section \<open>Two concrete readers, to run the loader\<close>

text \<open>
  \<open>to_datetime_iso\<close> reads a date written \<^verbatim>\<open>YYYY-MM-DD\<close> and returns midnight of that
  day in nanoseconds since 1970-01-01; the day count is the inverse of the calendar
  computation above; the text \<^verbatim>\<open>NaT\<close> gives NaT. \<open>float_of_decimal\<close> reads an optional
  sign, digits and an optional fraction, and returns the exact decimal value; the text
  \<^verbatim>\<open>nan\<close> gives NaN. They stand for the library conversions on
  the inputs of the examples only; the library accepts more notations than these.
\<close>

definition digit_val :: "char \<Rightarrow> nat option" where
  "digit_val c = (let n = (of_char c :: nat) in if 48 \<le> n \<and> n \<le> 57 then Some (n - 48) else None)"

fun digits_val :: "nat \<Rightarrow> string \<Rightarrow> nat option" where
  "digits_val acc [] = Some acc"
| "digits_val acc (c # cs) =
     (case digit_val c of None \<Rightarrow> None | Some v \<Rightarrow> digits_val (10 * acc + v) cs)"

definition read_nat :: "string \<Rightarrow> nat option" where
  "read_nat s = (if s = [] then None else digits_val 0 s)"

definition get_datetimestruct_days :: "int \<Rightarrow> int \<Rightarrow> int \<Rightarrow> int" where
  "get_datetimestruct_days y m d =
     365 * (y - 1970) + (y - 1969) div 4 - (y - 1901) div 100 + (y - 1601) div 400
       + sum_list (take (nat (m - 1)) (days_per_month_table (is_leapyear y))) + (d - 1)"

definition to_datetime_iso :: "string \<Rightarrow> error + int option" where
  "to_datetime_iso s =
     (if s = ''NaT'' then Inr None
      else if length s = 10 \<and> s ! 4 = CHR ''-'' \<and> s ! 7 = CHR ''-'' then
        (case (read_nat (take 4 s), read_nat (take 2 (drop 5 s)), read_nat (drop 8 s)) of
           (Some y, Some m, Some d) \<Rightarrow>
             (if 1 \<le> m \<and> m \<le> 12 \<and> 1 \<le> d
                 \<and> int d \<le> days_per_month_table (is_leapyear (int y)) ! (m - 1)
              then Inr (Some (get_datetimestruct_days (int y) (int m) (int d) * ns_per_day))
              else Inl DateParseError)
         | _ \<Rightarrow> Inl DateParseError)
      else Inl DateParseError)"

definition unsigned_decimal :: "string \<Rightarrow> error + real" where
  "unsigned_decimal s =
     (let ip = takeWhile (\<lambda>c. digit_val c \<noteq> None) s;
          rest = dropWhile (\<lambda>c. digit_val c \<noteq> None) s
      in case rest of
           [] \<Rightarrow> (case read_nat ip of None \<Rightarrow> Inl ValueError | Some n \<Rightarrow> Inr (real n))
         | c # fp \<Rightarrow>
             (if c = CHR ''.'' \<and> (ip \<noteq> [] \<or> fp \<noteq> []) then
                (case digits_val 0 (ip @ fp) of
                   None \<Rightarrow> Inl ValueError
                 | Some n \<Rightarrow> Inr (real n / 10 ^ length fp))
              else Inl ValueError))"

definition signed_decimal :: "string \<Rightarrow> error + real" where
  "signed_decimal s =
     (case s of
        [] \<Rightarrow> Inl ValueError
      | c # cs \<Rightarrow>
          (if c = CHR ''-'' then (case unsigned_decimal cs of Inl e \<Rightarrow> Inl e | Inr v \<Rightarrow> Inr (- v))
           else if c = CHR ''+'' then unsigned_decimal cs
           else unsigned_decimal s))"

definition float_of_decimal :: "string \<Rightarrow> error + real option" where
  "float_of_decimal s =
     (if s = ''nan'' then Inr None
      else (case signed_decimal s of Inl e \<Rightarrow> Inl e | Inr v \<Rightarrow> Inr (Some v)))"

definition raw_of :: "string option \<Rightarrow> real option \<Rightarrow> string \<Rightarrow> string \<Rightarrow> string \<Rightarrow> string \<Rightarrow> raw_row" where
  "raw_of d t la lo city country =
     \<lparr>raw_dt = d, raw_AverageTemperature = t, raw_Latitude = Some la, raw_Longitude = Some lo,
      raw_City = Some city, raw_Country = Some country\<rparr>"

text \<open>Three rows as read from a file; the second has no temperature.\<close>

definition raw_example :: "raw_row list" where
  "raw_example =
     [raw_of (Some ''1743-11-01'') (Some 6) ''57.05N'' ''10.33E'' ''Arhus'' ''Denmark'',
      raw_of (Some ''1743-12-01'') None ''57.05N'' ''10.33E'' ''Arhus'' ''Denmark'',
      raw_of (Some ''2013-09-01'') (Some 27) ''12.3S'' ''12.3W'' ''Luanda'' ''Angola'']"

text \<open>
  Two rows with a temperature and no date: an empty \<open>dt\<close> cell, and a \<open>dt\<close> cell with
  the text \<^verbatim>\<open>NaT\<close>.
\<close>

definition raw_missing_dt :: "raw_row list" where
  "raw_missing_dt =
     [raw_of None (Some 6) ''57.05N'' ''10.33E'' ''Arhus'' ''Denmark'',
      raw_of (Some ''NaT'') (Some 7) ''57.05N'' ''10.33E'' ''Arhus'' ''Denmark'']"

text \<open>The cleaned tables that the loader returns on the two examples.\<close>

definition loaded_example :: "row list" where
  "loaded_example =
     [\<lparr>dt = Some (- 7137158400000000000), AverageTemperature = Some 6,
       Latitude = Some 57.05, Longitude = Some 10.33,
       City = Some ''Arhus'', Country = Some ''Denmark'', Year = Some 1743, Month = Some 11\<rparr>,
      \<lparr>dt = Some 1377993600000000000, AverageTemperature = Some 27,
       Latitude = Some 12.3, Longitude = Some 12.3,
       City = Some ''Luanda'', Country = Some ''Angola'', Year = Some 2013, Month = Some 9\<rparr>]"

definition loaded_missing_dt :: "row list" where
  "loaded_missing_dt =
     [\<lparr>dt = None, AverageTemperature = Some 6,
       Latitude = Some 57.05, Longitude = Some 10.33,
       City = Some ''Arhus'', Country = Some ''Denmark'', Year = None, Month = None\<rparr>,
      \<lparr>dt = None, AverageTemperature = Some 7,
       Latitude = Some 57.05, Longitude = Some 10.33,
       City = Some ''Arhus'', Country = Some ''Denmark'', Year = None, Month = None\<rparr>]"

section \<open>The filter of main (lines 94-96)\<close>

text \<open>
  \<^verbatim>\<open>df['Year'] >= lo\<close> and \<^verbatim>\<open>df['Year'] <= hi\<close> are elementwise comparisons; a
  comparison with NaN is False. \<^verbatim>\<open>df['Country'] == c\<close> is False on a missing country.
\<close>

definition year_ge :: "int option \<Rightarrow> int \<Rightarrow> bool" where
  "year_ge y lo = (case y of None \<Rightarrow> False | Some v \<Rightarrow> lo \<le> v)"

definition year_le :: "int option \<Rightarrow> int \<Rightarrow> bool" where
  "year_le y hi = (case y of None \<Rightarrow> False | Some v \<Rightarrow> v \<le> hi)"

text \<open>
  The two variables of \<^verbatim>\<open>main\<close> that the filter touches: \<open>df\<close>, the cleaned table, and
  \<open>filtered_df\<close>, which lines 94-96 assign. Boolean indexing builds a new frame.
\<close>

record main_state =
  df :: "row list"
  filtered_df :: "row list"

definition filter_rows :: "row list \<Rightarrow> int \<times> int \<Rightarrow> string \<Rightarrow> row list" where
  "filter_rows d year_range selected_country =
     (let f = filter (\<lambda>r. year_ge (Year r) (fst year_range) \<and> year_le (Year r) (snd year_range)) d
      in if selected_country \<noteq> ''All''
         then filter (\<lambda>r. Country r = Some selected_country) f
         else f)"

definition apply_filters :: "main_state \<Rightarrow> int \<times> int \<Rightarrow> string \<Rightarrow> main_state" where
  "apply_filters s year_range selected_country =
     s\<lparr>filtered_df := filter_rows (df s) year_range selected_country\<rparr>"

text \<open>A small cleaned table used to run the filter: two rows of 1999 and 2000.\<close>

definition row_of :: "int \<Rightarrow> int \<Rightarrow> string \<Rightarrow> string \<Rightarrow> real \<Rightarrow> row" where
  "row_of y m city country t =
     \<lparr>dt = None, AverageTemperature = Some t, Latitude = None, Longitude = None,
      City = Some city, Country = Some country, Year = Some y, Month = Some m\<rparr>"

definition df_1999_2000 :: "row list" where
  "df_1999_2000 = [row_of 1999 1 ''Pune'' ''India'' 21, row_of 2000 1 ''Pune'' ''India'' 22,
     row_of 2000 2 ''Oslo'' ''Norway'' (-3)]"

section \<open>The aggregations of the four plot functions (lines 27-66)\<close>

text \<open>
  \<^verbatim>\<open>df.groupby(key)['AverageTemperature'].mean()\<close> makes one pass over the rows and keeps,
  for every key, the sum and the number of the temperatures that are not missing; a row
  whose key is missing belongs to no group. The result lists the keys in ascending order,
  each with its sum divided by its count, or NaN (\<open>None\<close>) when the count is zero.
  What is modelled of each plot function is the series it computes; drawing the figure is
  library code and left out.
\<close>

definition group_get :: "('k \<rightharpoonup> real \<times> nat) \<Rightarrow> 'k \<Rightarrow> real \<times> nat" where
  "group_get m k = (case m k of None \<Rightarrow> (0, 0) | Some p \<Rightarrow> p)"

definition group_step :: "(row \<Rightarrow> 'k option) \<Rightarrow> row \<Rightarrow> ('k \<rightharpoonup> real \<times> nat) \<Rightarrow> ('k \<rightharpoonup> real \<times> nat)" where
  "group_step key r m =
     (case key r of
        None \<Rightarrow> m
      | Some k \<Rightarrow>
          (case AverageTemperature r of
             None \<Rightarrow> m(k \<mapsto> group_get m k)
           | Some x \<Rightarrow> m(k \<mapsto> (fst (group_get m k) + x, snd (group_get m k) + 1))))"

definition group_sums :: "(row \<Rightarrow> 'k option) \<Rightarrow> row list \<Rightarrow> ('k \<rightharpoonup> real \<times> nat)" where
  "group_sums key d = fold (group_step key) d Map.empty"

definition group_keys :: "(row \<Rightarrow> 'k option) \<Rightarrow> row list \<Rightarrow> ('k :: linorder) list" where
  "group_keys key d = sort (remdups (List.map_filter key d))"

definition group_mean :: "('k \<rightharpoonup> real \<times> nat) \<Rightarrow> 'k \<Rightarrow> real option" where
  "group_mean m k =
     (case m k of
        None \<Rightarrow> None
      | Some (s, n) \<Rightarrow> if n = 0 then None else Some (s / real n))"

definition groupby_mean :: "(row \<Rightarrow> 'k option) \<Rightarrow> row list \<Rightarrow> (('k :: linorder) \<times> real option) list" where
  "groupby_mean key d = map (\<lambda>k. (k, group_mean (group_sums key d) k)) (group_keys key d)"

text \<open>The temperatures of the rows of one group, in row order, skipping the missing ones.\<close>

definition group_temps :: "(row \<Rightarrow> 'k option) \<Rightarrow> row list \<Rightarrow> 'k \<Rightarrow> real list" where
  "group_temps key d k = List.map_filter AverageTemperature (filter (\<lambda>r. key r = Some k) d)"

text \<open>Lines 29 and 59.\<close>

definition plot_yearly_trend :: "row list \<Rightarrow> (int \<times> real option) list" where
  "plot_yearly_trend d = groupby_mean Year d"

definition plot_monthly_trend :: "row list \<Rightarrow> (int \<times> real option) list" where
  "plot_monthly_trend d = groupby_mean Month d"





text \<open>Tables to run the aggregations on.\<close>

definition df_2000 :: "row list" where
  "df_2000 = [row_of 2000 1 ''Pune'' ''India'' 10, row_of 2000 2 ''Pune'' ''India'' 20]"


section \<open>The calendar fields of a timestamp\<close>

lemma m4: "(400 * q + 100 * c + 4 * f + g + 2000) mod 4 = (g::int) mod 4"
  by algebra
lemma m100: "(400 * q + 100 * c + 4 * f + 2000) mod 100 = (4 * f :: int) mod 100"
  by algebra
lemma m400: "(400 * q + 100 * c + 2000) mod 400 = (100 * c :: int) mod 400"
  by algebra

lemma leap_a: "is_leapyear (400 * q + 2000)"
  using m4 [of q 0 0 0] m400 [of q 0] by (simp add: is_leapyear_def)

lemma leap_b: "1 \<le> c \<Longrightarrow> c \<le> 3 \<Longrightarrow> \<not> is_leapyear (400 * q + 100 * c + 2000)"
proof -
  assume "1 \<le> c" "c \<le> 3"
  then have "c = 1 \<or> c = 2 \<or> c = 3" by linarith
  then have "(100 * c) mod 400 \<noteq> 0 \<and> (4 * 0 :: int) mod 100 = 0" by auto
  then show ?thesis
    using m400 [of q c] m100 [of q c 0] by (simp add: is_leapyear_def)
qed

lemma leap_c: "1 \<le> f \<Longrightarrow> f \<le> 24 \<Longrightarrow> is_leapyear (400 * q + 100 * c + 4 * f + 2000)"
proof -
  assume "1 \<le> f" "f \<le> 24"
  then have "(4 * f) mod 100 = 4 * f" "4 * f \<noteq> 0" by simp_all
  then have "(4 * f) mod 100 \<noteq> 0" by simp
  then show ?thesis
    using m4 [of q c f 0] m100 [of q c f] by (simp add: is_leapyear_def)
qed

lemma leap_d: "1 \<le> g \<Longrightarrow> g \<le> 3 \<Longrightarrow> \<not> is_leapyear (400 * q + 100 * c + 4 * f + g + 2000)"
proof -
  assume "1 \<le> g" "g \<le> 3"
  then have "g mod 4 = g" "g \<noteq> 0" by simp_all
  then show ?thesis
    using m4 [of q c f g] by (simp add: is_leapyear_def)
qed
lemma yd_range:
  assumes a: "days_to_yearsdays z = (y, d)"
  shows "0 \<le> d \<and> d < (if is_leapyear y then 366 else 365)"
proof -
  define q where "q = (z - (365 * 30 + 7)) div 146097"
  define d0 where "d0 = (z - (365 * 30 + 7)) mod 146097"
  define c where "c = (d0 - 1) div 36524"
  define d1 where "d1 = (d0 - 1) mod 36524"
  define f where "f = (d1 + 1) div 1461"
  define d2 where "d2 = (d1 + 1) mod 1461"
  define g where "g = (d2 - 1) div 365"
  define d3 where "d3 = (d2 - 1) mod 365"
  note a' = a [unfolded days_to_yearsdays_def Let_def, folded q_def d0_def,
      folded c_def d1_def, folded f_def d2_def, folded g_def d3_def]
  have d0: "0 \<le> d0" "d0 < 146097" by (simp_all add: d0_def)
  have d1: "d0 - 1 = 36524 * c + d1" "0 \<le> d1" "d1 < 36524"
    by (simp_all add: c_def d1_def)
  have d2: "d1 + 1 = 1461 * f + d2" "0 \<le> d2" "d2 < 1461"
    by (simp_all add: f_def d2_def)
  have d3: "d2 - 1 = 365 * g + d3" "0 \<le> d3" "d3 < 365"
    by (simp_all add: g_def d3_def)
  show ?thesis
  proof (cases "d0 \<ge> 366")
    case False
    with a' have "y = 400 * q + 2000" "d = d0" by simp_all
    with False d0 leap_a [of q] show ?thesis by simp
  next
    case c1: True
    show ?thesis
    proof (cases "d1 \<ge> 365")
      case False
      with a' c1 have yd: "y = 400 * q + 100 * c + 2000" "d = d1" by simp_all
      have "1 \<le> c" "c \<le> 3" using False c1 d0 d1 by linarith+
      then have "\<not> is_leapyear y" unfolding yd by (rule leap_b)
      with False d1(2,3) yd show ?thesis by simp
    next
      case c2: True
      show ?thesis
      proof (cases "d2 \<ge> 366")
        case False
        with a' c1 c2 have yd: "y = 400 * q + 100 * c + 4 * f + 2000" "d = d2" by simp_all
        have "1 \<le> f" "f \<le> 24" using False c2 d1 d2 by linarith+
        then have "is_leapyear y" unfolding yd by (rule leap_c)
        with False d2(2,3) yd show ?thesis by simp
      next
        case c3: True
        with a' c1 c2 have yd: "y = 400 * q + 100 * c + 4 * f + g + 2000" "d = d3" by simp_all
        have "1 \<le> g" "g \<le> 3" using c3 d2 d3 by linarith+
        then have "\<not> is_leapyear y" unfolding yd by (rule leap_d)
        with yd d3(2,3) show ?thesis by simp
      qed
    qed
  qed
qed

lemma month_loop_range: "month_loop ls i d = Some (m, dd) \<Longrightarrow> i < m \<and> m \<le> i + int (length ls)"
  by (induction ls i d rule: month_loop.induct) (auto split: if_splits)

lemma month_loop_Some:
  "d < (if leap then 366 else 365) \<Longrightarrow> month_loop (days_per_month_table leap) 0 d \<noteq> None"
  by (cases leap) (simp_all add: days_per_month_table_def)


lemma set_datetimestruct_days_month:
  "\<exists>m dd. snd (set_datetimestruct_days z) = Some (m, dd) \<and> 1 \<le> m \<and> m \<le> 12"
proof -
  obtain y d where yd: "days_to_yearsdays z = (y, d)" by (cases "days_to_yearsdays z")
  from yd_range [OF yd] have "month_loop (days_per_month_table (is_leapyear y)) 0 d \<noteq> None"
    by (intro month_loop_Some) simp
  then obtain m dd where m: "month_loop (days_per_month_table (is_leapyear y)) 0 d = Some (m, dd)"
    by auto
  from month_loop_range [OF m] have "1 \<le> m \<and> m \<le> 12"
    by (simp add: days_per_month_table_def split: if_splits)
  with m yd show ?thesis by (simp add: set_datetimestruct_days_def)
qed

lemma dt_month_range: "\<exists>m. dt_month ns = Some m \<and> 1 \<le> m \<and> m \<le> 12"
  using set_datetimestruct_days_month [of "ns div ns_per_day"]
  by (auto simp: dt_month_def)

section \<open>Properties of the loader\<close>

lemma map_result_Inr: "map_result f xs = Inr ys \<Longrightarrow> map f xs = map Inr ys"
  by (induction xs arbitrary: ys) (auto split: sum.splits)

lemma map_result_length: "map_result f xs = Inr ys \<Longrightarrow> length ys = length xs"
  using map_result_Inr [of f xs ys] by (metis length_map)

lemma map_result_succeeds:
  "(\<forall>x \<in> set xs. \<exists>y. f x = Inr y) \<Longrightarrow> \<exists>ys. map_result f xs = Inr ys"
  by (induction xs) auto

lemma load_Inr_cases:
  assumes "load_and_preprocess_data td tf raw = Inr d"
  obtains dts lats lons where
    "map_result (\<lambda>r. to_datetime_cell td (raw_dt r)) (dropna raw) = Inr dts"
    "map_result (\<lambda>r. convert_coordinate tf (raw_Latitude r)) (dropna raw) = Inr lats"
    "map_result (\<lambda>r. convert_coordinate tf (raw_Longitude r)) (dropna raw) = Inr lons"
    "d = map (\<lambda>(r, t, la, lo). mk_row r t la lo) (zip (dropna raw) (zip dts (zip lats lons)))"
  using assms unfolding load_and_preprocess_data_def Let_def convert_column_def
  by (auto split: sum.splits if_splits)

lemma map_zip4_fst:
  assumes "length bs = length as" "length cs = length as" "length ds = length as"
  shows "map (\<lambda>(a, b, c, d). f a) (zip as (zip bs (zip cs ds))) = map f as"
proof -
  have "map (\<lambda>(a, b, c, d). f a) (zip as (zip bs (zip cs ds)))
      = map f (map fst (zip as (zip bs (zip cs ds))))"
    by (simp add: case_prod_unfold)
  also have "\<dots> = map f as" using assms by (simp add: map_fst_zip)
  finally show ?thesis .
qed

lemma map_zip4_snd:
  assumes "length bs = length as" "length cs = length as" "length ds = length as"
  shows "map (\<lambda>(a, b, c, d). g b) (zip as (zip bs (zip cs ds))) = map g bs"
proof -
  have "map (\<lambda>(a, b, c, d). g b) (zip as (zip bs (zip cs ds)))
      = map g (map fst (map snd (zip as (zip bs (zip cs ds)))))"
    by (simp add: case_prod_unfold)
  also have "\<dots> = map g bs" using assms by (simp add: map_fst_zip map_snd_zip)
  finally show ?thesis .
qed

lemma map_zip4_third:
  assumes "length bs = length as" "length cs = length as" "length ds = length as"
  shows "map (\<lambda>(a, b, c, d). g c) (zip as (zip bs (zip cs ds))) = map g cs"
proof -
  have "map (\<lambda>(a, b, c, d). g c) (zip as (zip bs (zip cs ds)))
      = map g (map fst (map snd (map snd (zip as (zip bs (zip cs ds))))))"
    by (simp add: case_prod_unfold)
  also have "\<dots> = map g cs" using assms by (simp add: map_fst_zip map_snd_zip)
  finally show ?thesis .
qed

lemma load_length:
  "load_and_preprocess_data td tf raw = Inr d \<Longrightarrow> length d = length (dropna raw)"
  by (erule load_Inr_cases) (auto dest!: map_result_length)

lemma load_AverageTemperature:
  assumes "load_and_preprocess_data td tf raw = Inr d"
  shows "map AverageTemperature d = map raw_AverageTemperature (dropna raw)"
proof -
  from assms obtain dts lats lons where
    l: "length dts = length (dropna raw)" "length lats = length (dropna raw)"
       "length lons = length (dropna raw)"
    and d: "d = map (\<lambda>(r, t, la, lo). mk_row r t la lo) (zip (dropna raw) (zip dts (zip lats lons)))"
    by (auto elim!: load_Inr_cases dest!: map_result_length)
  have "map AverageTemperature d
      = map (\<lambda>(r, t, la, lo). raw_AverageTemperature r) (zip (dropna raw) (zip dts (zip lats lons)))"
    unfolding d by (simp add: mk_row_def case_prod_unfold)
  also have "\<dots> = map raw_AverageTemperature (dropna raw)"
    using l by (rule map_zip4_fst)
  finally show ?thesis .
qed

lemma load_dt:
  assumes "load_and_preprocess_data td tf raw = Inr d"
  shows "map (\<lambda>r. Inr (dt r)) d = map (\<lambda>r. to_datetime_cell td (raw_dt r)) (dropna raw)"
proof -
  from assms obtain dts lats lons where
    m: "map_result (\<lambda>r. to_datetime_cell td (raw_dt r)) (dropna raw) = Inr dts"
    and l: "length dts = length (dropna raw)" "length lats = length (dropna raw)"
       "length lons = length (dropna raw)"
    and d: "d = map (\<lambda>(r, t, la, lo). mk_row r t la lo) (zip (dropna raw) (zip dts (zip lats lons)))"
    by (auto elim!: load_Inr_cases dest: map_result_length)
  have "map (\<lambda>r. Inr (dt r) :: error + int option) d
      = map (\<lambda>(r, t, la, lo). Inr t) (zip (dropna raw) (zip dts (zip lats lons)))"
    unfolding d by (simp add: mk_row_def case_prod_unfold)
  also have "\<dots> = map Inr dts"
    using l by (rule map_zip4_snd)
  also have "\<dots> = map (\<lambda>r. to_datetime_cell td (raw_dt r)) (dropna raw)"
    using map_result_Inr [OF m] by simp
  finally show ?thesis .
qed

lemma load_Latitude:
  assumes "load_and_preprocess_data td tf raw = Inr d"
  shows "map (\<lambda>r. Inr (Latitude r)) d = map (\<lambda>r. convert_coordinate tf (raw_Latitude r)) (dropna raw)"
proof -
  from assms obtain dts lats lons where
    m: "map_result (\<lambda>r. convert_coordinate tf (raw_Latitude r)) (dropna raw) = Inr lats"
    and l: "length dts = length (dropna raw)" "length lats = length (dropna raw)"
       "length lons = length (dropna raw)"
    and d: "d = map (\<lambda>(r, t, la, lo). mk_row r t la lo) (zip (dropna raw) (zip dts (zip lats lons)))"
    by (auto elim!: load_Inr_cases dest: map_result_length)
  have "map (\<lambda>r. Inr (Latitude r) :: error + real option) d
      = map (\<lambda>(r, t, la, lo). Inr la) (zip (dropna raw) (zip dts (zip lats lons)))"
    unfolding d by (simp add: mk_row_def case_prod_unfold)
  also have "\<dots> = map Inr lats"
    using l by (rule map_zip4_third)
  also have "\<dots> = map (\<lambda>r. convert_coordinate tf (raw_Latitude r)) (dropna raw)"
    using map_result_Inr [OF m] by simp
  finally show ?thesis .
qed

lemma load_row_shape:
  assumes "load_and_preprocess_data td tf raw = Inr d" "r \<in> set d"
  shows "Year r = map_option dt_year (dt r) \<and> Month r = Option.bind (dt r) dt_month"
  using assms by (auto elim!: load_Inr_cases simp: mk_row_def)

lemma dropna_count:
  "length (dropna raw) + length (filter (\<lambda>r. raw_AverageTemperature r = None) raw) = length raw"
  unfolding dropna_def using sum_length_filter_compl [of "\<lambda>r. raw_AverageTemperature r \<noteq> None" raw]
  by simp

lemma load_example:
  "load_and_preprocess_data to_datetime_iso float_of_decimal raw_example = Inr loaded_example"
  by (simp add: load_and_preprocess_data_def raw_example_def raw_of_def dropna_def
      to_datetime_cell_def to_datetime_iso_def read_nat_def digit_val_def
      get_datetimestruct_days_def days_per_month_table_def is_leapyear_def ns_per_day_def
      convert_coordinate_def str_drop_last_def astype_float_def float_of_decimal_def
      signed_decimal_def convert_column_def holds_text_def unsigned_decimal_def mk_row_def dt_year_def dt_month_def set_datetimestruct_days_def
      days_to_yearsdays_def loaded_example_def)

lemma load_missing_dt:
  "load_and_preprocess_data to_datetime_iso float_of_decimal raw_missing_dt = Inr loaded_missing_dt"
  by (simp add: load_and_preprocess_data_def raw_missing_dt_def raw_of_def dropna_def
      to_datetime_cell_def to_datetime_iso_def Let_def loaded_missing_dt_def
      convert_coordinate_def str_drop_last_def astype_float_def float_of_decimal_def
      signed_decimal_def convert_column_def holds_text_def unsigned_decimal_def mk_row_def read_nat_def digit_val_def)

lemma load_Longitude:
  assumes "load_and_preprocess_data td tf raw = Inr d"
  shows "map (\<lambda>r. Inr (Longitude r)) d = map (\<lambda>r. convert_coordinate tf (raw_Longitude r)) (dropna raw)"
proof -
  from assms obtain dts lats lons where
    m: "map_result (\<lambda>r. convert_coordinate tf (raw_Longitude r)) (dropna raw) = Inr lons"
    and l: "length dts = length (dropna raw)" "length lats = length (dropna raw)"
       "length lons = length (dropna raw)"
    and d: "d = map (\<lambda>(r, t, la, lo). mk_row r t la lo) (zip (dropna raw) (zip dts (zip lats lons)))"
    by (auto elim!: load_Inr_cases dest: map_result_length)
  have "map (\<lambda>r. Inr (Longitude r) :: error + real option) d
      = map Inr (map (\<lambda>(r, t, la, lo). lo) (zip (dropna raw) (zip dts (zip lats lons))))"
    unfolding d by (simp add: mk_row_def case_prod_unfold)
  also have "map (\<lambda>(r, t, la, lo). lo) (zip (dropna raw) (zip dts (zip lats lons)))
      = map snd (map snd (map snd (zip (dropna raw) (zip dts (zip lats lons)))))"
    by (simp add: case_prod_unfold)
  also have "\<dots> = lons" using l by (simp add: map_snd_zip)
  also have "map Inr lons = map (\<lambda>r. convert_coordinate tf (raw_Longitude r)) (dropna raw)"
    using map_result_Inr [OF m] by simp
  finally show ?thesis .
qed

lemma convert_coordinate_snoc:
  "convert_coordinate to_float (Some (s @ [c])) = astype_float to_float (Some s)"
  by (simp add: convert_coordinate_def str_drop_last_def)

lemma convert_coordinate_examples:
  "convert_coordinate float_of_decimal (Some ''34.5N'') = Inr (Some 34.5)"
  "convert_coordinate float_of_decimal (Some ''12.3W'') = Inr (Some 12.3)"
  "convert_coordinate float_of_decimal (Some ''12.3E'') = Inr (Some 12.3)"
  by (simp_all add: convert_coordinate_def str_drop_last_def astype_float_def
      float_of_decimal_def signed_decimal_def unsigned_decimal_def digit_val_def read_nat_def)

text \<open>
  The loader returns a table whenever the two coordinate columns hold text and every
  date and coordinate it keeps converts.
\<close>

lemma load_succeeds:
  assumes "\<forall>r \<in> set (dropna raw). \<exists>t. to_datetime_cell td (raw_dt r) = Inr t"
    and "holds_text raw raw_Latitude" "holds_text raw raw_Longitude"
    and "\<forall>r \<in> set (dropna raw). \<exists>v. convert_coordinate tf (raw_Latitude r) = Inr v"
    and "\<forall>r \<in> set (dropna raw). \<exists>v. convert_coordinate tf (raw_Longitude r) = Inr v"
  shows "\<exists>d. load_and_preprocess_data td tf raw = Inr d"
proof -
  from map_result_succeeds [OF assms(1)] obtain dts where
    "map_result (\<lambda>r. to_datetime_cell td (raw_dt r)) (dropna raw) = Inr dts" ..
  moreover from map_result_succeeds [OF assms(4)] obtain lats where
    "map_result (\<lambda>r. convert_coordinate tf (raw_Latitude r)) (dropna raw) = Inr lats" ..
  moreover from map_result_succeeds [OF assms(5)] obtain lons where
    "map_result (\<lambda>r. convert_coordinate tf (raw_Longitude r)) (dropna raw) = Inr lons" ..
  ultimately show ?thesis
    using assms(2,3) by (simp add: load_and_preprocess_data_def convert_column_def)
qed

text \<open>A file with rows and a coordinate column without any text does not load.\<close>

lemma load_no_text_column:
  "raw \<noteq> [] \<Longrightarrow> \<forall>r \<in> set raw. raw_Latitude r = None \<Longrightarrow>
     \<exists>e. load_and_preprocess_data td tf raw = Inl e"
  by (auto simp: load_and_preprocess_data_def Let_def convert_column_def holds_text_def
      split: sum.splits)

text \<open>
  C1. Whenever the loader returns a table, every row with a missing \<open>AverageTemperature\<close>
  has been removed and every other row kept, in order: the cleaned table has as many rows
  as the input has rows with a temperature, so exactly \<open>N - 1\<close> rows when exactly one of
  the \<open>N\<close> input rows lacks it, and no row of the cleaned table has a missing
  temperature.
\<close>

theorem loader_drops_missing_temperature:
  assumes "load_and_preprocess_data to_datetime to_float raw = Inr d"
  shows "length d + length (filter (\<lambda>r. raw_AverageTemperature r = None) raw) = length raw
   \<and> (length (filter (\<lambda>r. raw_AverageTemperature r = None) raw) = 1 \<longrightarrow> length d = length raw - 1)
   \<and> map AverageTemperature d = filter (\<lambda>t. t \<noteq> None) (map raw_AverageTemperature raw)
   \<and> (\<forall>r \<in> set d. AverageTemperature r \<noteq> None)"
proof -
  have len: "length d + length (filter (\<lambda>r. raw_AverageTemperature r = None) raw) = length raw"
    using load_length [OF assms] dropna_count [of raw] by simp
  have temps: "map AverageTemperature d = filter (\<lambda>t. t \<noteq> None) (map raw_AverageTemperature raw)"
    using load_AverageTemperature [OF assms] by (simp add: dropna_def filter_map comp_def)
  have "set (map AverageTemperature d) \<subseteq> {t. t \<noteq> None}"
    unfolding temps by auto
  then have "\<forall>r \<in> set d. AverageTemperature r \<noteq> None" by auto
  with len temps show ?thesis by auto
qed

theorem loader_drops_missing_temperature_witness:
  "load_and_preprocess_data to_datetime_iso float_of_decimal raw_example = Inr loaded_example
   \<and> length raw_example = 3
   \<and> length (filter (\<lambda>r. raw_AverageTemperature r = None) raw_example) = 1
   \<and> length loaded_example = 2
   \<and> map AverageTemperature loaded_example = [Some 6, Some 27]"
  using loader_drops_missing_temperature [OF load_example] load_example
  by (simp add: raw_example_def raw_of_def loaded_example_def)

text \<open>
  C2, as stated, fails: the loader drops rows on \<open>AverageTemperature\<close> only, so a row with
  a temperature and no date is kept, be its \<open>dt\<close> cell empty or a text that
  \<open>to_datetime\<close> reads as NaT; its timestamp is NaT and its year and month are missing,
  not a month in 1..12.
\<close>

theorem loader_year_month_counterexample:
  "load_and_preprocess_data to_datetime_iso float_of_decimal raw_missing_dt = Inr loaded_missing_dt
   \<and> map raw_dt raw_missing_dt = [None, Some ''NaT'']
   \<and> map dt loaded_missing_dt = [None, None]
   \<and> map Year loaded_missing_dt = [None, None]
   \<and> map Month loaded_missing_dt = [None, None]"
  using load_missing_dt by (simp add: loaded_missing_dt_def raw_missing_dt_def raw_of_def)

text \<open>
  C2, amended. The \<open>dt\<close> column of the cleaned table is what \<open>to_datetime\<close> makes of the
  \<open>dt\<close> cells of the kept rows. Every row whose parsed timestamp is not NaT has the
  calendar year and the calendar month of that timestamp, and that month lies in 1..12.
  A row whose timestamp is NaT has no year and no month.
\<close>

theorem loader_year_month_of_timestamp:
  assumes "load_and_preprocess_data to_datetime to_float raw = Inr d"
  shows "map (\<lambda>r. Inr (dt r)) d = map (\<lambda>r. to_datetime_cell to_datetime (raw_dt r)) (dropna raw)
   \<and> (\<forall>r \<in> set d.
        (case dt r of
           None \<Rightarrow> Year r = None \<and> Month r = None
         | Some t \<Rightarrow> Year r = Some (dt_year t)
             \<and> (\<exists>m. Month r = Some m \<and> dt_month t = Some m \<and> 1 \<le> m \<and> m \<le> 12)))"
proof -
  have b: "(case dt r of
           None \<Rightarrow> Year r = None \<and> Month r = None
         | Some t \<Rightarrow> Year r = Some (dt_year t)
             \<and> (\<exists>m. Month r = Some m \<and> dt_month t = Some m \<and> 1 \<le> m \<and> m \<le> 12))"
    if "r \<in> set d" for r
  proof (cases "dt r")
    case None
    with load_row_shape [OF assms that] show ?thesis by simp
  next
    case (Some t)
    with load_row_shape [OF assms that] dt_month_range [of t] show ?thesis by auto
  qed
  from load_dt [OF assms] b show ?thesis by blast
qed

theorem loader_year_month_of_timestamp_witness:
  "load_and_preprocess_data to_datetime_iso float_of_decimal raw_example = Inr loaded_example
   \<and> map dt loaded_example = [Some (- 7137158400000000000), Some 1377993600000000000]
   \<and> map Year loaded_example = [Some 1743, Some 2013]
   \<and> map Month loaded_example = [Some 11, Some 9]
   \<and> map (\<lambda>r. map_option dt_year (dt r)) loaded_example = [Some 1743, Some 2013]
   \<and> map (\<lambda>r. Option.bind (dt r) dt_month) loaded_example = [Some 11, Some 9]"
  using loader_year_month_of_timestamp [OF load_example] load_example
  by (simp add: loaded_example_def)

text \<open>
  C3. A coordinate is converted by dropping exactly its last character and converting the
  rest: the dropped character is never looked at, so two strings that differ only in it
  convert alike and no sign is flipped. \<open>34.5N\<close> gives 34.5, \<open>12.3W\<close> and \<open>12.3E\<close> both
  give 12.3; the loader applies this to every kept latitude and longitude.
\<close>

theorem coordinate_strips_last_character:
  "convert_coordinate to_float (Some (s @ [c])) = astype_float to_float (Some s)
   \<and> convert_coordinate to_float (Some (s @ [c])) = convert_coordinate to_float (Some (s @ [c']))
   \<and> convert_coordinate float_of_decimal (Some ''34.5N'') = Inr (Some 34.5)
   \<and> convert_coordinate float_of_decimal (Some ''12.3W'') = Inr (Some 12.3)
   \<and> convert_coordinate float_of_decimal (Some ''12.3E'') = Inr (Some 12.3)
   \<and> (load_and_preprocess_data to_datetime to_float raw = Inr d \<longrightarrow>
        map (\<lambda>r. Inr (Latitude r)) d = map (\<lambda>r. convert_coordinate to_float (raw_Latitude r)) (dropna raw)
      \<and> map (\<lambda>r. Inr (Longitude r)) d = map (\<lambda>r. convert_coordinate to_float (raw_Longitude r)) (dropna raw))"
  using load_Latitude [of to_datetime to_float raw d] load_Longitude [of to_datetime to_float raw d]
  by (simp add: convert_coordinate_snoc convert_coordinate_examples)

theorem coordinate_strips_last_character_witness:
  "load_and_preprocess_data to_datetime_iso float_of_decimal raw_example = Inr loaded_example
   \<and> map raw_Latitude (dropna raw_example) = [Some ''57.05N'', Some ''12.3S'']
   \<and> map raw_Longitude (dropna raw_example) = [Some ''10.33E'', Some ''12.3W'']
   \<and> map Latitude loaded_example = [Some 57.05, Some 12.3]
   \<and> map Longitude loaded_example = [Some 10.33, Some 12.3]
   \<and> convert_coordinate float_of_decimal (Some (''12.3'' @ ''W'')) = astype_float float_of_decimal (Some ''12.3'')"
  using coordinate_strips_last_character
    [of float_of_decimal "''12.3''" "CHR ''W''" "CHR ''E''" to_datetime_iso raw_example loaded_example]
    load_example
  by (simp add: loaded_example_def raw_example_def raw_of_def dropna_def)

section \<open>Properties of the filter\<close>

lemma year_in_range_iff:
  "(year_ge y lo \<and> year_le y hi) = (\<exists>v. y = Some v \<and> lo \<le> v \<and> v \<le> hi)"
  by (cases y) (simp_all add: year_ge_def year_le_def)

lemma filter_rows_eq:
  "filter_rows d (lo, hi) c =
     filter (\<lambda>r. (\<exists>v. Year r = Some v \<and> lo \<le> v \<and> v \<le> hi) \<and>
                  (c \<noteq> ''All'' \<longrightarrow> Country r = Some c)) d"
proof (cases "c = ''All''")
  case True
  then show ?thesis
    by (simp add: filter_rows_def year_in_range_iff)
next
  case False
  then show ?thesis
    by (simp add: filter_rows_def year_in_range_iff conj_commute)
qed

text \<open>
  C4. For any table, any year range \<open>(lo, hi)\<close> and any selected country, the filter
  returns exactly the rows, in their order, whose year \<open>y\<close> satisfies \<open>lo \<le> y \<le> hi\<close>
  and, when the selection is not \<open>''All''\<close>, whose country is the selected one; with
  \<open>''All''\<close> there is no country restriction; when no row matches, the result is the
  empty table (the filter has no error branch).
\<close>

theorem filter_returns_matching_rows:
  "filtered_df (apply_filters s (lo, hi) c) =
     filter (\<lambda>r. (\<exists>v. Year r = Some v \<and> lo \<le> v \<and> v \<le> hi) \<and>
                  (c \<noteq> ''All'' \<longrightarrow> Country r = Some c)) (df s)
   \<and> filtered_df (apply_filters s (lo, hi) ''All'') =
     filter (\<lambda>r. \<exists>v. Year r = Some v \<and> lo \<le> v \<and> v \<le> hi) (df s)
   \<and> ((\<forall>r \<in> set (df s). \<not> ((\<exists>v. Year r = Some v \<and> lo \<le> v \<and> v \<le> hi) \<and>
                  (c \<noteq> ''All'' \<longrightarrow> Country r = Some c)))
        \<longrightarrow> filtered_df (apply_filters s (lo, hi) c) = [])"
  by (simp add: apply_filters_def filter_rows_eq)

theorem filter_returns_matching_rows_witness:
  "filtered_df (apply_filters \<lparr>df = df_1999_2000, filtered_df = []\<rparr> (2000, 2000) ''All'') =
     [row_of 2000 1 ''Pune'' ''India'' 22, row_of 2000 2 ''Oslo'' ''Norway'' (-3)]
   \<and> filtered_df (apply_filters \<lparr>df = df_1999_2000, filtered_df = []\<rparr> (1999, 2000) ''Norway'') =
     [row_of 2000 2 ''Oslo'' ''Norway'' (-3)]
   \<and> filtered_df (apply_filters \<lparr>df = df_1999_2000, filtered_df = []\<rparr> (1999, 1999) ''Norway'') = []"
  using filter_returns_matching_rows [of "\<lparr>df = df_1999_2000, filtered_df = []\<rparr>" 2000 2000 "''All''"]
    filter_returns_matching_rows [of "\<lparr>df = df_1999_2000, filtered_df = []\<rparr>" 1999 2000 "''Norway''"]
    filter_returns_matching_rows [of "\<lparr>df = df_1999_2000, filtered_df = []\<rparr>" 1999 1999 "''Norway''"]
  by (simp add: df_1999_2000_def row_of_def)

text \<open>
  C10. The filter does not test \<open>lo \<le> hi\<close>. For every table and every range with
  \<open>lo > hi\<close> it returns the empty table, and the cleaned table \<open>df\<close> of the state is
  the same before and after.
\<close>

theorem filter_inverted_range_empty:
  "hi < lo \<Longrightarrow>
     filtered_df (apply_filters s (lo, hi) c) = [] \<and> df (apply_filters s (lo, hi) c) = df s"
  by (auto simp: apply_filters_def filter_rows_eq filter_empty_conv)

theorem filter_inverted_range_empty_witness:
  "(1999 :: int) < 2000
   \<and> filtered_df (apply_filters \<lparr>df = df_1999_2000, filtered_df = df_1999_2000\<rparr> (2000, 1999) ''All'') = []
   \<and> df (apply_filters \<lparr>df = df_1999_2000, filtered_df = df_1999_2000\<rparr> (2000, 1999) ''All'') = df_1999_2000"
  using filter_inverted_range_empty [of 1999 2000 "\<lparr>df = df_1999_2000, filtered_df = df_1999_2000\<rparr>" "''All''"]
  by simp

section \<open>Properties of the aggregations\<close>

lemma group_step_other: "key r \<noteq> Some k \<Longrightarrow> group_step key r m k = m k"
  by (simp add: group_step_def split: option.splits)

lemma group_step_same:
  "key r = Some k \<Longrightarrow> group_step key r m k =
     Some (fst (group_get m k) + sum_list (List.map_filter AverageTemperature [r]),
           snd (group_get m k) + length (List.map_filter AverageTemperature [r]))"
  by (simp add: group_step_def List.map_filter_simps split: option.splits)

lemma group_temps_Cons:
  "group_temps key (r # d) k =
     (if key r = Some k then List.map_filter AverageTemperature [r] else []) @ group_temps key d k"
  by (simp add: group_temps_def List.map_filter_simps split: option.splits)

lemma group_temps_no_rows: "\<forall>r \<in> set d. key r \<noteq> Some k \<Longrightarrow> group_temps key d k = []"
  by (induction d) (simp_all add: group_temps_def List.map_filter_simps)

lemma fold_group_step:
  "fold (group_step key) d m0 k =
     (if \<exists>r \<in> set d. key r = Some k
      then Some (fst (group_get m0 k) + sum_list (group_temps key d k),
                 snd (group_get m0 k) + length (group_temps key d k))
      else m0 k)"
proof (induction d arbitrary: m0)
  case Nil
  show ?case by simp
next
  case (Cons r d)
  have step: "fold (group_step key) (r # d) m0 k = fold (group_step key) d (group_step key r m0) k"
    by simp
  show ?case
  proof (cases "key r = Some k")
    case False
    then have "group_get (group_step key r m0) k = group_get m0 k"
      by (simp add: group_get_def group_step_other)
    with False show ?thesis
      unfolding step Cons.IH by (simp add: group_step_other group_temps_Cons)
  next
    case True
    then have g: "group_get (group_step key r m0) k =
        (fst (group_get m0 k) + sum_list (List.map_filter AverageTemperature [r]),
         snd (group_get m0 k) + length (List.map_filter AverageTemperature [r]))"
      by (simp add: group_get_def group_step_same)
    from True show ?thesis
      unfolding step Cons.IH g
        by (auto simp: group_step_same group_temps_Cons group_temps_no_rows)
  qed
qed

lemma group_sums_eq:
  "group_sums key d k =
     (if \<exists>r \<in> set d. key r = Some k
      then Some (sum_list (group_temps key d k), length (group_temps key d k)) else None)"
  unfolding group_sums_def fold_group_step by (simp add: group_get_def)

lemma set_group_keys: "set (group_keys key d) = {k. \<exists>r \<in> set d. key r = Some k}"
  by (force simp: group_keys_def List.map_filter_def)

lemma sorted_group_keys: "sorted_wrt (<) (group_keys key d)"
  by (simp add: group_keys_def strict_sorted_iff)

lemma map_fst_groupby_mean: "map fst (groupby_mean key d) = group_keys key d"
  by (simp add: groupby_mean_def comp_def)

lemma group_temps_all:
  assumes "\<forall>r \<in> set d. AverageTemperature r \<noteq> None"
  shows "map Some (group_temps key d k) = map AverageTemperature (filter (\<lambda>r. key r = Some k) d)"
  using assms by (induction d) (auto simp: group_temps_def List.map_filter_simps)

lemma groupby_mean_member:
  assumes "(k, m) \<in> set (groupby_mean key d)"
  shows "(\<exists>r \<in> set d. key r = Some k)
    \<and> m = (if group_temps key d k = [] then None
           else Some (sum_list (group_temps key d k) / real (length (group_temps key d k))))"
  using assms by (auto simp: groupby_mean_def set_group_keys group_mean_def group_sums_eq)

lemma groupby_mean_spec:
  "sorted_wrt (<) (map fst (groupby_mean key d))
   \<and> set (map fst (groupby_mean key d)) = {k. \<exists>r \<in> set d. key r = Some k}
   \<and> ((\<forall>r \<in> set d. AverageTemperature r \<noteq> None) \<longrightarrow>
        (\<forall>(k, m) \<in> set (groupby_mean key d).
           \<exists>ts. map Some ts = map AverageTemperature (filter (\<lambda>r. key r = Some k) d)
              \<and> ts \<noteq> [] \<and> m = Some (sum_list ts / real (length ts))))"
proof -
  have "\<exists>ts. map Some ts = map AverageTemperature (filter (\<lambda>r. key r = Some k) d)
          \<and> ts \<noteq> [] \<and> m = Some (sum_list ts / real (length ts))"
    if inv: "\<forall>r \<in> set d. AverageTemperature r \<noteq> None" and km: "(k, m) \<in> set (groupby_mean key d)"
    for k m
  proof -
    from groupby_mean_member [OF km] obtain r where r: "r \<in> set d" "key r = Some k"
      and m: "m = (if group_temps key d k = [] then None
           else Some (sum_list (group_temps key d k) / real (length (group_temps key d k))))"
      by auto
    have ts: "map Some (group_temps key d k) = map AverageTemperature (filter (\<lambda>r. key r = Some k) d)"
      using inv by (rule group_temps_all)
    from r have "filter (\<lambda>r. key r = Some k) d \<noteq> []"
      by (auto simp: filter_empty_conv)
    with ts have ne: "group_temps key d k \<noteq> []" by (metis map_is_Nil_conv)
    with m ts show ?thesis by auto
  qed
  then show ?thesis
    by (auto simp: map_fst_groupby_mean sorted_group_keys set_group_keys)
qed

lemma yearly_trend_example: "plot_yearly_trend df_2000 = [(2000, Some 15)]"
  by (simp add: plot_yearly_trend_def groupby_mean_def group_keys_def group_sums_def
      group_step_def group_get_def group_mean_def df_2000_def row_of_def List.map_filter_simps)

lemma monthly_trend_example: "plot_monthly_trend df_2000 = [(1, Some 10), (2, Some 20)]"
  by (simp add: plot_monthly_trend_def groupby_mean_def group_keys_def group_sums_def
      group_step_def group_get_def group_mean_def df_2000_def row_of_def List.map_filter_simps)

lemma monthly_trend_empty: "plot_monthly_trend [] = []"
  by (simp add: plot_monthly_trend_def groupby_mean_def group_keys_def List.map_filter_simps)

text \<open>
  C5. The yearly trend lists (year, mean) pairs in strictly ascending order of year; the
  years listed are exactly the years that have a row, so a year without rows is absent;
  on a table without missing temperatures (every cleaned and every filtered table is one)
  the mean of a year is the sum of the temperatures of all its rows divided by their
  number. Two rows of 2000 with 10 and 20 give \<open>[(2000, 15)]\<close>.
\<close>

theorem yearly_trend_is_mean_by_year:
  "sorted_wrt (<) (map fst (plot_yearly_trend d))
   \<and> set (map fst (plot_yearly_trend d)) = {y. \<exists>r \<in> set d. Year r = Some y}
   \<and> ((\<forall>r \<in> set d. AverageTemperature r \<noteq> None) \<longrightarrow>
        (\<forall>(y, m) \<in> set (plot_yearly_trend d).
           \<exists>ts. map Some ts = map AverageTemperature (filter (\<lambda>r. Year r = Some y) d)
              \<and> ts \<noteq> [] \<and> m = Some (sum_list ts / real (length ts))))
   \<and> plot_yearly_trend df_2000 = [(2000, Some 15)]"
  unfolding plot_yearly_trend_def
  using groupby_mean_spec [of Year d] yearly_trend_example [unfolded plot_yearly_trend_def]
  by blast

theorem yearly_trend_is_mean_by_year_witness:
  "map AverageTemperature df_2000 = [Some 10, Some 20]
   \<and> map Year df_2000 = [Some 2000, Some 2000]
   \<and> plot_yearly_trend df_2000 = [(2000, Some ((10 + 20) / 2))]"
  using yearly_trend_is_mean_by_year [of df_2000]
  by (simp add: df_2000_def row_of_def)

text \<open>
  C7. The monthly trend lists (month, mean) pairs in strictly ascending order of month;
  the months listed are exactly the months that have a row, so absent months are omitted;
  the mean of a month is the arithmetic mean of the temperatures of its rows; on the empty
  table the result is the empty series (the aggregation has no error branch).
\<close>

theorem monthly_trend_is_mean_by_month:
  "sorted_wrt (<) (map fst (plot_monthly_trend d))
   \<and> set (map fst (plot_monthly_trend d)) = {k. \<exists>r \<in> set d. Month r = Some k}
   \<and> ((\<forall>r \<in> set d. AverageTemperature r \<noteq> None) \<longrightarrow>
        (\<forall>(k, m) \<in> set (plot_monthly_trend d).
           \<exists>ts. map Some ts = map AverageTemperature (filter (\<lambda>r. Month r = Some k) d)
              \<and> ts \<noteq> [] \<and> m = Some (sum_list ts / real (length ts))))
   \<and> plot_monthly_trend [] = []"
  unfolding plot_monthly_trend_def
  using groupby_mean_spec [of Month d] monthly_trend_empty [unfolded plot_monthly_trend_def]
  by blast

theorem monthly_trend_is_mean_by_month_witness:
  "map AverageTemperature df_2000 = [Some 10, Some 20]
   \<and> map Month df_2000 = [Some 1, Some 2]
   \<and> plot_monthly_trend df_2000 = [(1, Some 10), (2, Some 20)]
   \<and> plot_monthly_trend [] = []"
  using monthly_trend_is_mean_by_month [of df_2000] monthly_trend_example
  by (simp add: df_2000_def row_of_def)














end
